theory Spec2Isabelle
  imports Complex_Main
begin

section \<open>The OpenRouter chat-completion client\<close>

text \<open>
  A shallow embedding of \<^verbatim>\<open>OpenRouterClient.createChatCompletion\<close>. The repository
  holds the method twice: \<^verbatim>\<open>src/lib/llm/OpenRouterClient.ts\<close> asks the vendor for a
  \<^verbatim>\<open>response_format\<close> and parses the reply once, and \<^verbatim>\<open>src/unnamed/part_001\<close>
  always appends a schema instruction and decodes the reply with fallbacks. Both are
  embedded; the lines they share (cache lookup, message formatting, tool formatting,
  response normalisation, the outer \<^verbatim>\<open>catch\<close>) are embedded once.

  JavaScript numbers are modelled as rationals (temperature and the other sampling
  parameters) or integers (token counts, \<^verbatim>\<open>retries\<close>): \<^verbatim>\<open>NaN\<close> and the infinities
  are left out. An optional property that is \<^verbatim>\<open>undefined\<close> is \<open>None\<close>.
\<close>

subsection \<open>Requests\<close>

datatype json =
    JNull
  | JBool bool
  | JNumber rat
  | JString string
  | JArray "json list"
  | JObject "(string \<times> json) list"

datatype role = System | User | Assistant

text \<open>A content part of a message: the code tells the two apart by
  \<^verbatim>\<open>"image_url" in content\<close> and reads \<^verbatim>\<open>content.image_url.url\<close> or \<^verbatim>\<open>content.text\<close>.\<close>

datatype ChatMessageContent =
    TextContent string
  | ImageContent string

datatype message_content =
    Str string
  | Parts "ChatMessageContent list"

record ChatMessage =
  msg_role :: role
  msg_content :: message_content

record image =
  buffer :: "nat list"
  description :: "string option"

record LLMTool =
  tool_name :: string
  tool_description :: string
  tool_properties :: json
  tool_required :: "string list option"

datatype tool_choice = Auto | NoChoice | Required

record 's response_model =
  schema :: 's
  name :: string

record 's ChatCompletionOptions =
  messages :: "ChatMessage list"
  temperature :: "rat option"
  top_p :: "rat option"
  frequency_penalty :: "rat option"
  presence_penalty :: "rat option"
  image :: "image option"
  maxTokens :: "int option"
  response_model :: "'s response_model option"
  tools :: "LLMTool list option"
  tool_choice :: "tool_choice option"
  requestId :: "string option"

text \<open>The object \<^verbatim>\<open>cacheOptions\<close> handed to the cache as the key.\<close>

record 's cacheOptions =
  key_model :: string
  key_messages :: "ChatMessage list"
  key_temperature :: "rat option"
  key_top_p :: "rat option"
  key_frequency_penalty :: "rat option"
  key_presence_penalty :: "rat option"
  key_image :: "image option"
  key_response_model :: "'s response_model option"
  key_tools :: "LLMTool list option"
  key_tool_choice :: "tool_choice option"
  key_maxTokens :: "int option"

subsection \<open>The vendor's wire format\<close>

datatype ChatCompletionContentPart =
    ChatCompletionContentPartText string
  | ChatCompletionContentPartImage string

datatype param_content =
    PStr string
  | PParts "ChatCompletionContentPart list"

record ChatCompletionMessageParam =
  param_role :: role
  param_content :: param_content

record ChatCompletionTool =
  fn_name :: string
  fn_description :: string
  fn_properties :: json
  fn_required :: "string list option"

text \<open>The argument of \<^verbatim>\<open>client.chat.completions.create\<close>. The variant of
  \<^verbatim>\<open>part_001\<close> passes no \<^verbatim>\<open>response_format\<close> key at all: \<open>None\<close>.\<close>

record ChatCompletionCreateParams =
  req_model :: string
  req_messages :: "ChatCompletionMessageParam list"
  req_temperature :: rat
  req_max_tokens :: "int option"
  req_tools :: "ChatCompletionTool list option"
  req_tool_choice :: "tool_choice option"
  req_response_format :: "json option"
  req_top_p :: "rat option"
  req_frequency_penalty :: "rat option"
  req_presence_penalty :: "rat option"

record ToolCall =
  call_id :: string
  call_name :: string
  call_arguments :: string

record api_message =
  api_content :: "string option"
  api_tool_calls :: "ToolCall list option"

record api_choice =
  api_message :: "api_message option"
  api_finish_reason :: "string option"

record api_usage =
  api_prompt_tokens :: "int option"
  api_completion_tokens :: "int option"
  api_total_tokens :: "int option"

record ChatCompletion =
  api_id :: string
  api_created :: int
  api_choices :: "api_choice list"
  api_usage :: "api_usage option"

subsection \<open>Responses, results and errors\<close>

record usage =
  prompt_tokens :: int
  completion_tokens :: int
  total_tokens :: int

text \<open>\<^verbatim>\<open>LLMResponse\<close>: the array \<^verbatim>\<open>choices\<close> is built with exactly one element, of
  index 0, whose fields are the four \<open>choice_\<close> fields here.\<close>

record LLMResponse =
  resp_id :: string
  resp_object :: string
  resp_created :: int
  resp_model :: string
  choice_role :: role
  choice_content :: "string option"
  choice_tool_calls :: "ToolCall list"
  choice_finish_reason :: string
  resp_usage :: usage

text \<open>What the method resolves to (its type parameter \<^verbatim>\<open>T\<close>): the response, or
  \<^verbatim>\<open>{data, usage}\<close> when a \<^verbatim>\<open>response_model\<close> was given.\<close>

datatype completion =
    Response LLMResponse
  | Extracted json usage

datatype error =
    CreateChatCompletionResponseError string
  | ZodSchemaValidationError string
  | Error string

fun message :: "error \<Rightarrow> string" where
  "message (CreateChatCompletionResponseError m) = m"
| "message (ZodSchemaValidationError m) = m"
| "message (Error m) = m"

subsection \<open>The client, the world and what lies outside the repository\<close>

datatype event =
    Log string string nat
  | CacheGet "string option"
  | CacheSet completion "string option"
  | Create ChatCompletionCreateParams
  | JSONParse string
  | Validate json

text \<open>The state the method reads and writes: \<^verbatim>\<open>this.cache\<close> (\<open>None\<close> when the
  constructor got no cache), the calls made so far to the logger, the cache, the vendor,
  \<^verbatim>\<open>JSON.parse\<close> and \<^verbatim>\<open>validateZodSchema\<close>, in order, and the number of vendor calls.\<close>

record 'c world =
  cache :: "'c option"
  trace :: "event list"
  adapter_calls :: nat

record client =
  modelName :: string
  enableCaching :: bool

text \<open>What the method calls and the repository's sources do not hold: the OpenAI
  client (its reply may depend on how many calls came before), \<^verbatim>\<open>JSON.parse\<close> and
  \<^verbatim>\<open>JSON.stringify\<close>, the zod helpers, \<^verbatim>\<open>Buffer.toString("base64")\<close> and the
  \<^verbatim>\<open>LLMCache\<close>. A call that throws returns \<open>Inl\<close> (for \<open>validateZodSchema\<close>, \<open>Some\<close>).\<close>

record ('s, 'c) env =
  create :: "nat \<Rightarrow> ChatCompletionCreateParams \<Rightarrow> error + ChatCompletion"
  JSON_parse :: "string \<Rightarrow> error + json"
  JSON_stringify :: "json \<Rightarrow> string"
  validateZodSchema :: "'s \<Rightarrow> json \<Rightarrow> error option"
  zodResponseFormat :: "'s \<Rightarrow> string \<Rightarrow> error + json"
  zodToJsonSchema :: "'s \<Rightarrow> json"
  toBase64 :: "nat list \<Rightarrow> string"
  cache_get :: "'c \<Rightarrow> 's cacheOptions \<Rightarrow> string option \<Rightarrow> error + completion option"
  cache_set :: "'c \<Rightarrow> 's cacheOptions \<Rightarrow> completion \<Rightarrow> string option \<Rightarrow> error + 'c"

definition logger :: "string \<Rightarrow> string \<Rightarrow> nat \<Rightarrow> 'c world \<Rightarrow> 'c world" where
  "logger category msg level w = w\<lparr>trace := trace w @ [Log category msg level]\<rparr>"

definition record_event :: "event \<Rightarrow> 'c world \<Rightarrow> 'c world" where
  "record_event e w = w\<lparr>trace := trace w @ [e]\<rparr>"

subsection \<open>The cache key\<close>

definition cacheOptions :: "client \<Rightarrow> 's ChatCompletionOptions \<Rightarrow> 's cacheOptions" where
  "cacheOptions this options =
     \<lparr> key_model = modelName this,
       key_messages = messages options,
       key_temperature = temperature options,
       key_top_p = top_p options,
       key_frequency_penalty = frequency_penalty options,
       key_presence_penalty = presence_penalty options,
       key_image = image options,
       key_response_model = response_model options,
       key_tools = tools options,
       key_tool_choice = tool_choice options,
       key_maxTokens = maxTokens options \<rparr>"

subsection \<open>Formatting the request\<close>

fun contentPart :: "ChatMessageContent \<Rightarrow> ChatCompletionContentPart" where
  "contentPart (ImageContent url) = ChatCompletionContentPartImage url"
| "contentPart (TextContent t) = ChatCompletionContentPartText t"

fun is_text :: "ChatCompletionContentPart \<Rightarrow> bool" where
  "is_text (ChatCompletionContentPartText t) = True"
| "is_text (ChatCompletionContentPartImage url) = False"

definition formatMessage :: "ChatMessage \<Rightarrow> ChatCompletionMessageParam" where
  "formatMessage m =
     (case msg_content m of
        Parts cs \<Rightarrow>
          (let contentParts = map contentPart cs in
           if msg_role m = System then
             \<lparr> param_role = System, param_content = PParts (filter is_text contentParts) \<rparr>
           else if msg_role m = User then
             \<lparr> param_role = User, param_content = PParts contentParts \<rparr>
           else
             \<lparr> param_role = Assistant, param_content = PParts (filter is_text contentParts) \<rparr>)
      | Str s \<Rightarrow>
          (if msg_role m = System then \<lparr> param_role = System, param_content = PStr s \<rparr>
           else if msg_role m = Assistant then \<lparr> param_role = Assistant, param_content = PStr s \<rparr>
           else \<lparr> param_role = User, param_content = PStr s \<rparr>))"

definition formattedMessages :: "ChatMessage list \<Rightarrow> ChatCompletionMessageParam list" where
  "formattedMessages ms = map formatMessage ms"

definition imageMessage :: "('s, 'c) env \<Rightarrow> image \<Rightarrow> ChatCompletionMessageParam" where
  "imageMessage E img =
     \<lparr> param_role = User,
       param_content = PParts
         [ChatCompletionContentPartText
            (case description img of
               None \<Rightarrow> ''Please analyze this image.''
             | Some d \<Rightarrow> if d = [] then ''Please analyze this image.'' else d),
          ChatCompletionContentPartImage (''data:image/png;base64,'' @ toBase64 E (buffer img))] \<rparr>"

definition with_image ::
  "('s, 'c) env \<Rightarrow> 's ChatCompletionOptions \<Rightarrow> ChatCompletionMessageParam list
     \<Rightarrow> ChatCompletionMessageParam list" where
  "with_image E options ms =
     (case image options of None \<Rightarrow> ms | Some img \<Rightarrow> ms @ [imageMessage E img])"

text \<open>A tool becomes a function tool with the same name, description, properties and
  required keys; the constants \<^verbatim>\<open>type: "function"\<close> and \<^verbatim>\<open>type: "object"\<close> are not
  recorded.\<close>

definition formatTool :: "LLMTool \<Rightarrow> ChatCompletionTool" where
  "formatTool tool =
     \<lparr> fn_name = tool_name tool,
       fn_description = tool_description tool,
       fn_properties = tool_properties tool,
       fn_required = tool_required tool \<rparr>"

definition formatTools :: "'s ChatCompletionOptions \<Rightarrow> ChatCompletionTool list option" where
  "formatTools options = map_option (map formatTool) (tools options)"

text \<open>\<^verbatim>\<open>options.temperature || 0.7\<close>: an absent temperature and the temperature 0 are
  both falsy.\<close>

definition temperature_or_default :: "rat option \<Rightarrow> rat" where
  "temperature_or_default t =
     (case t of None \<Rightarrow> 7 / 10 | Some x \<Rightarrow> if x = 0 then 7 / 10 else x)"

definition tool_choice_or_auto ::
  "ChatCompletionTool list option \<Rightarrow> tool_choice option \<Rightarrow> tool_choice option" where
  "tool_choice_or_auto ts choice =
     (case ts of
        None \<Rightarrow> None
      | Some l \<Rightarrow>
          if length l > 0 then (case choice of None \<Rightarrow> Some Auto | Some c \<Rightarrow> Some c)
          else None)"

definition createParams ::
  "client \<Rightarrow> 's ChatCompletionOptions \<Rightarrow> ChatCompletionMessageParam list \<Rightarrow> json option
     \<Rightarrow> ChatCompletionCreateParams" where
  "createParams this options ms responseFormat =
     \<lparr> req_model = modelName this,
       req_messages = ms,
       req_temperature = temperature_or_default (temperature options),
       req_max_tokens = maxTokens options,
       req_tools = formatTools options,
       req_tool_choice = tool_choice_or_auto (formatTools options) (tool_choice options),
       req_response_format = responseFormat,
       req_top_p = top_p options,
       req_frequency_penalty = frequency_penalty options,
       req_presence_penalty = presence_penalty options \<rparr>"

subsection \<open>Normalising the vendor's reply\<close>

definition or_zero :: "int option \<Rightarrow> int" where
  "or_zero n = (case n of None \<Rightarrow> 0 | Some k \<Rightarrow> k)"

definition first_choice :: "ChatCompletion \<Rightarrow> api_choice option" where
  "first_choice apiResponse = (case api_choices apiResponse of [] \<Rightarrow> None | c # _ \<Rightarrow> Some c)"

definition first_message :: "ChatCompletion \<Rightarrow> api_message option" where
  "first_message apiResponse =
     (case first_choice apiResponse of None \<Rightarrow> None | Some c \<Rightarrow> api_message c)"

text \<open>\<^verbatim>\<open>apiResponse.choices[0]?.message?.content || null\<close>: an empty string is falsy.\<close>

definition content_or_null :: "ChatCompletion \<Rightarrow> string option" where
  "content_or_null apiResponse =
     (case first_message apiResponse of
        None \<Rightarrow> None
      | Some m \<Rightarrow>
          (case api_content m of None \<Rightarrow> None | Some s \<Rightarrow> if s = [] then None else Some s))"

definition tool_calls_or_empty :: "ChatCompletion \<Rightarrow> ToolCall list" where
  "tool_calls_or_empty apiResponse =
     (case first_message apiResponse of
        None \<Rightarrow> []
      | Some m \<Rightarrow> (case api_tool_calls m of None \<Rightarrow> [] | Some calls \<Rightarrow> calls))"

definition finish_reason_or_stop :: "ChatCompletion \<Rightarrow> string" where
  "finish_reason_or_stop apiResponse =
     (case first_choice apiResponse of
        None \<Rightarrow> ''stop''
      | Some c \<Rightarrow>
          (case api_finish_reason c of
             None \<Rightarrow> ''stop''
           | Some r \<Rightarrow> if r = [] then ''stop'' else r))"

definition formatUsage :: "ChatCompletion \<Rightarrow> usage" where
  "formatUsage apiResponse =
     (case api_usage apiResponse of
        None \<Rightarrow> \<lparr> prompt_tokens = 0, completion_tokens = 0, total_tokens = 0 \<rparr>
      | Some u \<Rightarrow>
          \<lparr> prompt_tokens = or_zero (api_prompt_tokens u),
            completion_tokens = or_zero (api_completion_tokens u),
            total_tokens = or_zero (api_total_tokens u) \<rparr>)"

definition formatResponse :: "client \<Rightarrow> ChatCompletion \<Rightarrow> LLMResponse" where
  "formatResponse this apiResponse =
     \<lparr> resp_id = api_id apiResponse,
       resp_object = ''chat.completion'',
       resp_created = api_created apiResponse,
       resp_model = modelName this,
       choice_role = Assistant,
       choice_content = content_or_null apiResponse,
       choice_tool_calls = tool_calls_or_empty apiResponse,
       choice_finish_reason = finish_reason_or_stop apiResponse,
       resp_usage = formatUsage apiResponse \<rparr>"

subsection \<open>Cache lookup and cache write\<close>

text \<open>The four places inside the \<^verbatim>\<open>try\<close> that retry or throw: no text to decode, no
  span found, the span does not parse, the value does not validate. Each keeps the error
  it caught.\<close>

datatype failure =
    NoContent
  | NoJSONFound error
  | ParseFailed error
  | Invalid error

text \<open>One pass through the method body ends in one of five ways: the cache holds an
  entry, \<^verbatim>\<open>cache.get\<close> throws, a result is returned, one of the four places above is
  reached, or something throws inside the \<^verbatim>\<open>try\<close>.\<close>

datatype outcome =
    Hit completion
  | Propagated error
  | Returned completion
  | Failed failure
  | Threw error

text \<open>Calling a method of \<^verbatim>\<open>this.cache\<close> when it is \<^verbatim>\<open>undefined\<close> throws a
  \<^verbatim>\<open>TypeError\<close>.\<close>

definition cache_undefined :: error where
  "cache_undefined = Error ''Cannot read properties of undefined''"

text \<open>Lines 99 to 134 of \<^verbatim>\<open>OpenRouterClient.ts\<close> (145 to 180 of \<^verbatim>\<open>part_001\<close>). They
  stand before the \<^verbatim>\<open>try\<close>: what \<^verbatim>\<open>cache.get\<close> throws leaves the method. A cached
  entry is an object, hence truthy.\<close>

definition cache_lookup ::
  "('s, 'c) env \<Rightarrow> client \<Rightarrow> 's ChatCompletionOptions \<Rightarrow> 'c world
     \<Rightarrow> (error + completion option) \<times> 'c world" where
  "cache_lookup E this options w =
     (if enableCaching this then
        (case cache w of
           None \<Rightarrow> (Inl cache_undefined, w)
         | Some c \<Rightarrow>
             (let w1 = record_event (CacheGet (requestId options)) w in
              case cache_get E c (cacheOptions this options) (requestId options) of
                Inl e \<Rightarrow> (Inl e, w1)
              | Inr (Some cachedResponse) \<Rightarrow>
                  (Inr (Some cachedResponse),
                   logger ''llm_cache'' ''LLM cache hit - returning cached response'' 1 w1)
              | Inr None \<Rightarrow>
                  (Inr None,
                   logger ''llm_cache'' ''LLM cache miss - no cached response found'' 1 w1)))
      else (Inr None, w))"

text \<open>\<^verbatim>\<open>if (this.enableCaching) await this.cache.set(...); return result\<close>, inside the
  \<^verbatim>\<open>try\<close>.\<close>

definition cache_store ::
  "('s, 'c) env \<Rightarrow> client \<Rightarrow> 's ChatCompletionOptions \<Rightarrow> completion \<Rightarrow> 'c world
     \<Rightarrow> outcome \<times> 'c world" where
  "cache_store E this options result w =
     (if enableCaching this then
        (case cache w of
           None \<Rightarrow> (Threw cache_undefined, w)
         | Some c \<Rightarrow>
             (let w1 = record_event (CacheSet result (requestId options)) w in
              case cache_set E c (cacheOptions this options) result (requestId options) of
                Inl e \<Rightarrow> (Threw e, w1)
              | Inr c' \<Rightarrow> (Returned result, w1\<lparr>cache := Some c'\<rparr>)))
      else (Returned result, w))"

text \<open>\<^verbatim>\<open>validateZodSchema\<close> in its own \<^verbatim>\<open>try\<close>, then the cache write and the return.\<close>

definition validate_and_store ::
  "('s, 'c) env \<Rightarrow> client \<Rightarrow> 's ChatCompletionOptions \<Rightarrow> 's response_model \<Rightarrow> LLMResponse
     \<Rightarrow> json \<Rightarrow> 'c world \<Rightarrow> outcome \<times> 'c world" where
  "validate_and_store E this options rm response parsedData w =
     (let w1 = record_event (Validate parsedData) w in
      case validateZodSchema E (schema rm) parsedData of
        Some e \<Rightarrow>
          (Failed (Invalid e), logger ''openrouter'' ''Response failed Zod schema validation'' 0 w1)
      | None \<Rightarrow> cache_store E this options (Extracted parsedData (resp_usage response)) w1)"

text \<open>The call of the vendor, counted and traced.\<close>

definition call_vendor ::
  "('s, 'c) env \<Rightarrow> ChatCompletionCreateParams \<Rightarrow> 'c world
     \<Rightarrow> (error + ChatCompletion) \<times> 'c world" where
  "call_vendor E params w =
     (create E (adapter_calls w) params,
      (record_event (Create params) w)\<lparr>adapter_calls := Suc (adapter_calls w)\<rparr>)"

subsection \<open>Building the request\<close>

text \<open>Lines 244 to 279 of \<^verbatim>\<open>OpenRouterClient.ts\<close>: the \<^verbatim>\<open>try\<close> holds only the local
  call \<^verbatim>\<open>zodResponseFormat(schema, name)\<close>; when that throws, the instruction is appended.\<close>

definition instruction :: "('s, 'c) env \<Rightarrow> 's \<Rightarrow> ChatCompletionMessageParam" where
  "instruction E sch =
     \<lparr> param_role = User,
       param_content = PStr
         (''Respond in this JSON schema format:'' @ [CHR 0x0A]
          @ JSON_stringify E (zodToJsonSchema E sch) @ [CHR 0x0A, CHR 0x0A]
          @ ''Do not include any other text, formatting or markdown in your output. Only the JSON object itself.'') \<rparr>"

definition build_request ::
  "('s, 'c) env \<Rightarrow> client \<Rightarrow> 's ChatCompletionOptions \<Rightarrow> 'c world
     \<Rightarrow> ChatCompletionCreateParams \<times> 'c world" where
  "build_request E this options w =
     (let ms = with_image E options (formattedMessages (messages options)) in
      case response_model options of
        None \<Rightarrow> (createParams this options ms None, w)
      | Some rm \<Rightarrow>
          (case zodResponseFormat E (schema rm) (name rm) of
             Inr responseFormat \<Rightarrow> (createParams this options ms (Some responseFormat), w)
           | Inl e \<Rightarrow>
               (createParams this options (ms @ [instruction E (schema rm)]) None,
                logger ''openrouter''
                  ''Structured output not supported, falling back to instructions'' 1 w)))"

text \<open>Lines 290 to 313 of \<^verbatim>\<open>part_001\<close>: the instruction is appended whenever a
  \<^verbatim>\<open>response_model\<close> is given; no \<^verbatim>\<open>response_format\<close> is ever built.\<close>

definition instruction_part001 :: "('s, 'c) env \<Rightarrow> 's \<Rightarrow> ChatCompletionMessageParam" where
  "instruction_part001 E sch =
     \<lparr> param_role = User,
       param_content = PStr
         (''Respond with ONLY valid JSON that matches this exact schema:'' @ [CHR 0x0A]
          @ JSON_stringify E (zodToJsonSchema E sch) @ [CHR 0x0A, CHR 0x0A]
          @ ''IMPORTANT: Your response must be valid JSON with no additional text, explanations, or markdown formatting. Start your response with '' @ [CHR 0x27] @ ''{'' @ [CHR 0x27]
          @ '' and end with '' @ [CHR 0x27] @ ''}'' @ [CHR 0x27]
          @ ''. Do not use ```json or any other formatting.'') \<rparr>"

definition build_request_part001 ::
  "('s, 'c) env \<Rightarrow> client \<Rightarrow> 's ChatCompletionOptions \<Rightarrow> 'c world
     \<Rightarrow> ChatCompletionCreateParams \<times> 'c world" where
  "build_request_part001 E this options w =
     (let ms = with_image E options (formattedMessages (messages options)) in
      case response_model options of
        None \<Rightarrow> (createParams this options ms None, w)
      | Some rm \<Rightarrow>
          (createParams this options (ms @ [instruction_part001 E (schema rm)]) None,
           logger ''openrouter'' ''Using instruction-based approach for response model'' 1 w))"

subsection \<open>Decoding the reply (\<^verbatim>\<open>part_001\<close>)\<close>

text \<open>Lines 371 to 386: the content when it is truthy, else the arguments of the first
  tool call, else nothing.\<close>

definition extractedData :: "LLMResponse \<Rightarrow> string option" where
  "extractedData response =
     (let from_tool_calls =
            (case choice_tool_calls response of
               [] \<Rightarrow> None
             | toolCall # _ \<Rightarrow> Some (call_arguments toolCall))
      in case choice_content response of
           None \<Rightarrow> from_tool_calls
         | Some s \<Rightarrow> if s \<noteq> [] then Some s else from_tool_calls)"

text \<open>\<^verbatim>\<open>s.replace(/F\n?/g, "")\<close> for a literal \<open>F\<close>: every occurrence of \<open>F\<close>, found from
  left to right, goes, with the line feed after it when there is one.\<close>

function remove_all :: "string \<Rightarrow> string \<Rightarrow> string" where
  "remove_all fence [] = []"
| "remove_all fence (c # cs) =
     (if fence \<noteq> [] \<and> take (length fence) (c # cs) = fence then
        remove_all fence
          (if drop (length fence) (c # cs) \<noteq> [] \<and> hd (drop (length fence) (c # cs)) = CHR 0x0A
           then tl (drop (length fence) (c # cs))
           else drop (length fence) (c # cs))
      else c # remove_all fence cs)"
  by pat_completeness auto
termination
proof (relation "measure (\<lambda>(fence, s). length s)")
  have shorter: "Suc n - length fence \<le> n" if "fence \<noteq> []" for n and fence :: string
    using that by (cases fence) auto
  fix fence :: string and c :: char and cs :: string
  assume "fence \<noteq> [] \<and> take (length fence) (c # cs) = fence"
  then show "((fence,
         if drop (length fence) (c # cs) \<noteq> [] \<and> hd (drop (length fence) (c # cs)) = CHR 0x0A
         then tl (drop (length fence) (c # cs))
         else drop (length fence) (c # cs)), fence, c # cs)
       \<in> measure (\<lambda>(fence, s). length s)"
    using shorter [of fence "length cs"] by auto
qed auto

definition cleanedData :: "string \<Rightarrow> string" where
  "cleanedData s = remove_all ''```'' (remove_all ''```json'' s)"

text \<open>\<^verbatim>\<open>s.match(/\{[\s\S]*\}/)\<close>: the match starts at the first opening brace and, the
  star being greedy over every character, ends at the last closing brace after it.\<close>

definition jsonMatch :: "string \<Rightarrow> string option" where
  "jsonMatch s =
     (case dropWhile (\<lambda>c. c \<noteq> CHR ''{'') s of
        [] \<Rightarrow> None
      | b # rest \<Rightarrow>
          if CHR ''}'' \<in> set rest
          then Some (b # rev (dropWhile (\<lambda>c. c \<noteq> CHR ''}'') (rev rest)))
          else None)"

text \<open>Lines 416 to 503 of \<^verbatim>\<open>part_001\<close>, up to the two places that retry or throw.\<close>

definition decode ::
  "('s, 'c) env \<Rightarrow> string \<Rightarrow> 'c world \<Rightarrow> (failure + json) \<times> 'c world" where
  "decode E raw w =
     (let w1 = record_event (JSONParse raw) w in
      case JSON_parse E raw of
        Inr parsedData \<Rightarrow> (Inr parsedData, w1)
      | Inl parseError \<Rightarrow>
          (case jsonMatch (cleanedData raw) of
             Some m \<Rightarrow>
               (let w2 = record_event (JSONParse m) w1 in
                case JSON_parse E m of
                  Inr parsedData \<Rightarrow> (Inr parsedData, w2)
                | Inl secondParseError \<Rightarrow>
                    (Inl (ParseFailed secondParseError),
                     logger ''openrouter'' ''Failed to parse cleaned response as JSON'' 0 w2))
           | None \<Rightarrow>
               (Inl (NoJSONFound parseError),
                logger ''openrouter'' ''No JSON found in response'' 0 w1)))"

subsection \<open>The \<^verbatim>\<open>try\<close> block\<close>

text \<open>Lines 281 to 392 of \<^verbatim>\<open>OpenRouterClient.ts\<close>. \<^verbatim>\<open>JSON.parse\<close> stands outside the inner
  \<^verbatim>\<open>try\<close>, so what it throws reaches the outer \<^verbatim>\<open>catch\<close>; applied to \<^verbatim>\<open>null\<close> it
  parses the text \<^verbatim>\<open>null\<close>.\<close>

definition try_block ::
  "('s, 'c) env \<Rightarrow> client \<Rightarrow> 's ChatCompletionOptions \<Rightarrow> ChatCompletionCreateParams
     \<Rightarrow> 'c world \<Rightarrow> outcome \<times> 'c world" where
  "try_block E this options params w =
     (case call_vendor E params w of
        (Inl e, w1) \<Rightarrow> (Threw e, w1)
      | (Inr apiResponse, w1) \<Rightarrow>
          (let response = formatResponse this apiResponse;
               w2 = logger ''openrouter'' ''OpenRouter chat completion finished'' 1 w1
           in case response_model options of
                Some rm \<Rightarrow>
                  (let raw = (case choice_content response of None \<Rightarrow> ''null'' | Some s \<Rightarrow> s);
                       w3 = record_event (JSONParse raw) w2
                   in case JSON_parse E raw of
                        Inl e \<Rightarrow> (Threw e, w3)
                      | Inr parsedData \<Rightarrow>
                          validate_and_store E this options rm response parsedData w3)
              | None \<Rightarrow> cache_store E this options (Response response) w2))"

text \<open>Lines 315 to 565 of \<^verbatim>\<open>part_001\<close>.\<close>

definition try_block_part001 ::
  "('s, 'c) env \<Rightarrow> client \<Rightarrow> 's ChatCompletionOptions \<Rightarrow> ChatCompletionCreateParams
     \<Rightarrow> 'c world \<Rightarrow> outcome \<times> 'c world" where
  "try_block_part001 E this options params w =
     (case call_vendor E params w of
        (Inl e, w1) \<Rightarrow> (Threw e, w1)
      | (Inr apiResponse, w1) \<Rightarrow>
          (let response = formatResponse this apiResponse;
               w2 = logger ''openrouter'' ''OpenRouter chat completion finished'' 1 w1
           in case response_model options of
                Some rm \<Rightarrow>
                  (case extractedData response of
                     None \<Rightarrow>
                       (Failed NoContent,
                        logger ''openrouter''
                          ''No content or tool calls found in OpenRouter response'' 0 w2)
                   | Some raw \<Rightarrow>
                       (case decode E raw w2 of
                          (Inl f, w3) \<Rightarrow> (Failed f, w3)
                        | (Inr parsedData, w3) \<Rightarrow>
                            validate_and_store E this options rm response parsedData w3))
              | None \<Rightarrow> cache_store E this options (Response response) w2))"

subsection \<open>One pass, and the retries\<close>

definition attempt ::
  "('s, 'c) env \<Rightarrow> client \<Rightarrow> 's ChatCompletionOptions \<Rightarrow> 'c world \<Rightarrow> outcome \<times> 'c world" where
  "attempt E this options w =
     (case cache_lookup E this options (logger ''openrouter'' ''creating chat completion'' 2 w) of
        (Inl e, w1) \<Rightarrow> (Propagated e, w1)
      | (Inr (Some cachedResponse), w1) \<Rightarrow> (Hit cachedResponse, w1)
      | (Inr None, w1) \<Rightarrow>
          (case build_request E this options w1 of
             (params, w2) \<Rightarrow> try_block E this options params w2))"

definition attempt_part001 ::
  "('s, 'c) env \<Rightarrow> client \<Rightarrow> 's ChatCompletionOptions \<Rightarrow> 'c world \<Rightarrow> outcome \<times> 'c world" where
  "attempt_part001 E this options w =
     (case cache_lookup E this options (logger ''openrouter'' ''creating chat completion'' 2 w) of
        (Inl e, w1) \<Rightarrow> (Propagated e, w1)
      | (Inr (Some cachedResponse), w1) \<Rightarrow> (Hit cachedResponse, w1)
      | (Inr None, w1) \<Rightarrow>
          (case build_request_part001 E this options w1 of
             (params, w2) \<Rightarrow> try_block_part001 E this options params w2))"

text \<open>What a failure site throws once \<^verbatim>\<open>retries > 0\<close> is false.\<close>

definition thrown :: "failure \<Rightarrow> 'c world \<Rightarrow> error \<times> 'c world" where
  "thrown f w =
     (case f of
        NoContent \<Rightarrow>
          (CreateChatCompletionResponseError
             ''No content or tool calls found in OpenRouter response for response_model'', w)
      | ParseFailed secondParseError \<Rightarrow>
          (CreateChatCompletionResponseError
             (''Failed to parse OpenRouter response as JSON: '' @ message secondParseError), w)
      | NoJSONFound parseError \<Rightarrow>
          (CreateChatCompletionResponseError
             (''No JSON found in OpenRouter response: '' @ message parseError), w)
      | Invalid e \<Rightarrow>
          (case e of
             ZodSchemaValidationError m \<Rightarrow>
               (CreateChatCompletionResponseError m,
                logger ''openrouter'' (''Error during OpenRouter chat completion: '' @ m) 0 w)
           | _ \<Rightarrow> (e, w)))"

text \<open>The decimal numeral of a number, as the template string prints \<open>retries\<close>.\<close>

definition digit_char :: "nat \<Rightarrow> char" where
  "digit_char d = char_of (48 + d)"

function digits_onto :: "nat \<Rightarrow> string \<Rightarrow> string" where
  "digits_onto n rest =
     (if n < 10 then digit_char n # rest
      else digits_onto (n div 10) (digit_char (n mod 10) # rest))"
  by pat_completeness auto
termination
  by (relation "measure fst") auto

definition numeral_text :: "nat \<Rightarrow> string" where
  "numeral_text n = digits_onto n []"

text \<open>The outer \<^verbatim>\<open>catch\<close>: its first log line, the log line before a retry, and the error
  it throws when no retry is left.\<close>

definition request_failed :: "error \<Rightarrow> 'c world \<Rightarrow> 'c world" where
  "request_failed e w = logger ''openrouter'' (''OpenRouter request failed: '' @ message e) 0 w"

definition retrying :: "int \<Rightarrow> 'c world \<Rightarrow> 'c world" where
  "retrying retries w =
     logger ''openrouter''
       (''retrying OpenRouter request, '' @ numeral_text (nat retries) @ '' attempts remaining'')
       1 w"

definition terminal :: "error \<Rightarrow> error" where
  "terminal e = CreateChatCompletionResponseError (''OpenRouter request failed: '' @ message e)"

text \<open>The method of \<^verbatim>\<open>src/lib/llm/OpenRouterClient.ts\<close>. Every
  \<^verbatim>\<open>return this.createChatCompletion({options, retries: retries - 1, logger})\<close> stands
  without \<^verbatim>\<open>await\<close>, so what the inner call throws is not caught again. A failure
  site inside the \<^verbatim>\<open>try\<close> that finds \<^verbatim>\<open>retries > 0\<close> false throws into the outer
  \<^verbatim>\<open>catch\<close>, which finds it false again.\<close>

function createChatCompletion ::
  "('s, 'c) env \<Rightarrow> client \<Rightarrow> 's ChatCompletionOptions \<Rightarrow> int \<Rightarrow> 'c world
     \<Rightarrow> (error + completion) \<times> 'c world" where
  "createChatCompletion E this options retries w =
     (case attempt E this options w of
        (Hit cachedResponse, w1) \<Rightarrow> (Inr cachedResponse, w1)
      | (Propagated e, w1) \<Rightarrow> (Inl e, w1)
      | (Returned result, w1) \<Rightarrow> (Inr result, w1)
      | (Failed f, w1) \<Rightarrow>
          if retries > 0 then createChatCompletion E this options (retries - 1) w1
          else (case thrown f w1 of (e, w2) \<Rightarrow> (Inl (terminal e), request_failed e w2))
      | (Threw e, w1) \<Rightarrow>
          if retries > 0
          then createChatCompletion E this options (retries - 1)
                 (retrying retries (request_failed e w1))
          else (Inl (terminal e), request_failed e w1))"
  by pat_completeness auto
termination
  by (relation "measure (\<lambda>(E, this, options, retries, w). nat retries)") auto

text \<open>The method of \<^verbatim>\<open>src/unnamed/part_001\<close>: the same driver around its own pass.\<close>

function createChatCompletion_part001 ::
  "('s, 'c) env \<Rightarrow> client \<Rightarrow> 's ChatCompletionOptions \<Rightarrow> int \<Rightarrow> 'c world
     \<Rightarrow> (error + completion) \<times> 'c world" where
  "createChatCompletion_part001 E this options retries w =
     (case attempt_part001 E this options w of
        (Hit cachedResponse, w1) \<Rightarrow> (Inr cachedResponse, w1)
      | (Propagated e, w1) \<Rightarrow> (Inl e, w1)
      | (Returned result, w1) \<Rightarrow> (Inr result, w1)
      | (Failed f, w1) \<Rightarrow>
          if retries > 0 then createChatCompletion_part001 E this options (retries - 1) w1
          else (case thrown f w1 of (e, w2) \<Rightarrow> (Inl (terminal e), request_failed e w2))
      | (Threw e, w1) \<Rightarrow>
          if retries > 0
          then createChatCompletion_part001 E this options (retries - 1)
                 (retrying retries (request_failed e w1))
          else (Inl (terminal e), request_failed e w1))"
  by pat_completeness auto
termination
  by (relation "measure (\<lambda>(E, this, options, retries, w). nat retries)") auto

declare createChatCompletion.simps [simp del]
declare createChatCompletion_part001.simps [simp del]
declare digits_onto.simps [simp del]

subsection \<open>A reference \<^verbatim>\<open>JSON.parse\<close>\<close>

text \<open>The theorems below hold for every \<open>JSON_parse\<close>. To run the method on concrete
  replies, this is a parser of the JSON grammar (RFC 8259): white space, the three
  literals, numbers (read as exact decimals), strings with their escapes (a
  \<^verbatim>\<open>\uXXXX\<close> escape becomes the UTF-8 bytes of the code unit), arrays and objects (a
  repeated key keeps its first place and its last value). It recurses on a budget of
  calls that \<open>JSON_parse_ref\<close> sets above the length of the text. The wording of the
  engine's \<^verbatim>\<open>SyntaxError\<close> is not reproduced.\<close>

definition is_ws :: "char \<Rightarrow> bool" where
  "is_ws c = (c = CHR 0x20 \<or> c = CHR 0x09 \<or> c = CHR 0x0A \<or> c = CHR 0x0D)"

definition skip_ws :: "string \<Rightarrow> string" where
  "skip_ws s = dropWhile is_ws s"

definition is_digit :: "char \<Rightarrow> bool" where
  "is_digit c = (48 \<le> (of_char c :: nat) \<and> (of_char c :: nat) \<le> 57)"

definition digit_value :: "char \<Rightarrow> nat" where
  "digit_value c = of_char c - 48"

definition nat_of_digits :: "string \<Rightarrow> nat" where
  "nat_of_digits ds = foldl (\<lambda>n c. 10 * n + digit_value c) 0 ds"

definition hex_value :: "char \<Rightarrow> nat option" where
  "hex_value c =
     (let k = (of_char c :: nat) in
      if 48 \<le> k \<and> k \<le> 57 then Some (k - 48)
      else if 65 \<le> k \<and> k \<le> 70 then Some (k - 55)
      else if 97 \<le> k \<and> k \<le> 102 then Some (k - 87)
      else None)"

definition utf8 :: "nat \<Rightarrow> string" where
  "utf8 k =
     (if k < 128 then [char_of k]
      else if k < 2048 then [char_of (192 + k div 64), char_of (128 + k mod 64)]
      else [char_of (224 + k div 4096), char_of (128 + (k div 64) mod 64), char_of (128 + k mod 64)])"

definition unescape :: "char \<Rightarrow> char option" where
  "unescape e =
     (if e = CHR 0x22 \<or> e = CHR 0x5C \<or> e = CHR ''/'' then Some e
      else if e = CHR ''b'' then Some (CHR 0x08)
      else if e = CHR ''f'' then Some (CHR 0x0C)
      else if e = CHR ''n'' then Some (CHR 0x0A)
      else if e = CHR ''r'' then Some (CHR 0x0D)
      else if e = CHR ''t'' then Some (CHR 0x09)
      else None)"

text \<open>The characters of a string, after its opening quote, and the text after its
  closing quote.\<close>

fun parse_chars :: "string \<Rightarrow> (string \<times> string) option" where
  "parse_chars [] = None"
| "parse_chars (c # cs) =
     (if c = CHR 0x22 then Some ([], cs)
      else if c = CHR 0x5C then
        (case cs of
           [] \<Rightarrow> None
         | e # r \<Rightarrow>
             if e = CHR ''u'' then
               (case r of
                  h1 # h2 # h3 # h4 # r' \<Rightarrow>
                    (case (hex_value h1, hex_value h2, hex_value h3, hex_value h4) of
                       (Some a, Some b, Some c', Some d) \<Rightarrow>
                         map_option (\<lambda>(t, rest). (utf8 (4096 * a + 256 * b + 16 * c' + d) @ t, rest))
                           (parse_chars r')
                     | _ \<Rightarrow> None)
                | _ \<Rightarrow> None)
             else
               (case unescape e of
                  None \<Rightarrow> None
                | Some x \<Rightarrow> map_option (\<lambda>(t, rest). (x # t, rest)) (parse_chars r)))
      else if (of_char c :: nat) < 32 then None
      else map_option (\<lambda>(t, rest). (c # t, rest)) (parse_chars cs))"

definition scale :: "nat \<Rightarrow> int \<Rightarrow> rat" where
  "scale m e = (if 0 \<le> e then of_nat m * 10 ^ nat e else of_nat m / 10 ^ nat (- e))"

definition parse_exponent :: "string \<Rightarrow> (int \<times> string) option" where
  "parse_exponent s =
     (case s of
        [] \<Rightarrow> Some (0, s)
      | c # cs \<Rightarrow>
          if c = CHR ''e'' \<or> c = CHR ''E'' then
            (let negative = (cs \<noteq> [] \<and> hd cs = CHR ''-'');
                 ds = (if cs \<noteq> [] \<and> (hd cs = CHR ''-'' \<or> hd cs = CHR ''+'') then tl cs else cs)
             in if takeWhile is_digit ds = [] then None
                else Some ((if negative then - 1 else 1) * int (nat_of_digits (takeWhile is_digit ds)),
                           dropWhile is_digit ds))
          else Some (0, s))"

definition parse_fraction :: "string \<Rightarrow> (string \<times> string) option" where
  "parse_fraction s =
     (case s of
        [] \<Rightarrow> Some ([], s)
      | c # cs \<Rightarrow>
          if c = CHR ''.'' then
            (if takeWhile is_digit cs = [] then None
             else Some (takeWhile is_digit cs, dropWhile is_digit cs))
          else Some ([], s))"

definition parse_number :: "string \<Rightarrow> (rat \<times> string) option" where
  "parse_number s =
     (let negative = (s \<noteq> [] \<and> hd s = CHR ''-'');
          s1 = (if negative then tl s else s);
          ip = takeWhile is_digit s1
      in if ip = [] \<or> (1 < length ip \<and> hd ip = CHR ''0'') then None
         else
           (case parse_fraction (dropWhile is_digit s1) of
              None \<Rightarrow> None
            | Some (fp, s2) \<Rightarrow>
                (case parse_exponent s2 of
                   None \<Rightarrow> None
                 | Some (e, s3) \<Rightarrow>
                     Some ((if negative then - 1 else 1)
                             * scale (nat_of_digits (ip @ fp)) (e - int (length fp)),
                           s3))))"

fun put :: "string \<Rightarrow> json \<Rightarrow> (string \<times> json) list \<Rightarrow> (string \<times> json) list" where
  "put k v [] = [(k, v)]"
| "put k v ((k', v') # kvs) = (if k = k' then (k, v) # kvs else (k', v') # put k v kvs)"

fun parse_value :: "nat \<Rightarrow> string \<Rightarrow> (json \<times> string) option"
  and parse_elements :: "nat \<Rightarrow> json list \<Rightarrow> string \<Rightarrow> (json \<times> string) option"
  and parse_members :: "nat \<Rightarrow> (string \<times> json) list \<Rightarrow> string \<Rightarrow> (json \<times> string) option"
where
  "parse_value 0 s = None"
| "parse_value (Suc n) s =
     (case skip_ws s of
        [] \<Rightarrow> None
      | c # cs \<Rightarrow>
          if c = CHR ''{'' then
            (case skip_ws cs of
               [] \<Rightarrow> None
             | d # ds \<Rightarrow> if d = CHR ''}'' then Some (JObject [], ds) else parse_members n [] (d # ds))
          else if c = CHR ''['' then
            (case skip_ws cs of
               [] \<Rightarrow> None
             | d # ds \<Rightarrow> if d = CHR '']'' then Some (JArray [], ds) else parse_elements n [] (d # ds))
          else if c = CHR 0x22 then map_option (\<lambda>(t, r). (JString t, r)) (parse_chars cs)
          else if take 4 (c # cs) = ''true'' then Some (JBool True, drop 4 (c # cs))
          else if take 5 (c # cs) = ''false'' then Some (JBool False, drop 5 (c # cs))
          else if take 4 (c # cs) = ''null'' then Some (JNull, drop 4 (c # cs))
          else map_option (\<lambda>(q, r). (JNumber q, r)) (parse_number (c # cs)))"
| "parse_elements 0 acc s = None"
| "parse_elements (Suc n) acc s =
     (case parse_value n s of
        None \<Rightarrow> None
      | Some (v, r) \<Rightarrow>
          (case skip_ws r of
             [] \<Rightarrow> None
           | d # ds \<Rightarrow>
               if d = CHR '','' then parse_elements n (acc @ [v]) ds
               else if d = CHR '']'' then Some (JArray (acc @ [v]), ds)
               else None))"
| "parse_members 0 acc s = None"
| "parse_members (Suc n) acc s =
     (case skip_ws s of
        [] \<Rightarrow> None
      | q # qs \<Rightarrow>
          if q \<noteq> CHR 0x22 then None
          else
            (case parse_chars qs of
               None \<Rightarrow> None
             | Some (k, r) \<Rightarrow>
                 (case skip_ws r of
                    [] \<Rightarrow> None
                  | colon # r2 \<Rightarrow>
                      if colon \<noteq> CHR '':'' then None
                      else
                        (case parse_value n r2 of
                           None \<Rightarrow> None
                         | Some (v, r3) \<Rightarrow>
                             (case skip_ws r3 of
                                [] \<Rightarrow> None
                              | d # ds \<Rightarrow>
                                  if d = CHR '','' then parse_members n (put k v acc) ds
                                  else if d = CHR ''}'' then Some (JObject (put k v acc), ds)
                                  else None)))))"

definition JSON_parse_ref :: "string \<Rightarrow> error + json" where
  "JSON_parse_ref s =
     (case parse_value (Suc (length s)) s of
        None \<Rightarrow> Inl (Error ''SyntaxError: Unexpected token'')
      | Some (v, rest) \<Rightarrow>
          if skip_ws rest = [] then Inr v
          else Inl (Error ''SyntaxError: Unexpected non-whitespace character after JSON''))"

subsection \<open>A reference environment\<close>

text \<open>Concrete stand-ins for the other parameters, to run the method on concrete
  inputs: \<^verbatim>\<open>JSON.stringify\<close> (a number that is not an integer is written with at most 17
  decimals), base64, a schema that lists the keys an object must have, and a cache kept
  as an association list on \<open>cacheOptions\<close>.\<close>

fun decimals :: "nat \<Rightarrow> nat \<Rightarrow> nat \<Rightarrow> string" where
  "decimals 0 r d = []"
| "decimals (Suc k) r d =
     (if r = 0 then [] else digit_char ((10 * r) div d) # decimals k ((10 * r) mod d) d)"

definition number_text :: "rat \<Rightarrow> string" where
  "number_text q =
     (let (p, d) = quotient_of q;
          a = nat \<bar>p\<bar>;
          whole = numeral_text (a div nat d);
          part = decimals 17 (a mod nat d) (nat d)
      in (if p < 0 then ''-'' else []) @ whole @ (if part = [] then [] else ''.'' @ part))"

definition quote_text :: "string \<Rightarrow> string" where
  "quote_text t =
     [CHR 0x22]
     @ concat (map (\<lambda>c. if c = CHR 0x22 \<or> c = CHR 0x5C then [CHR 0x5C, c]
                          else if c = CHR 0x0A then [CHR 0x5C, CHR ''n'']
                          else [c]) t)
     @ [CHR 0x22]"

fun join :: "string list \<Rightarrow> string" where
  "join [] = []"
| "join [x] = x"
| "join (x # y # ys) = x @ '','' @ join (y # ys)"

fun stringify_ref :: "json \<Rightarrow> string" where
  "stringify_ref JNull = ''null''"
| "stringify_ref (JBool b) = (if b then ''true'' else ''false'')"
| "stringify_ref (JNumber q) = number_text q"
| "stringify_ref (JString t) = quote_text t"
| "stringify_ref (JArray vs) = ''['' @ join (map stringify_ref vs) @ '']''"
| "stringify_ref (JObject kvs) =
     ''{'' @ join (map (\<lambda>(k, v). quote_text k @ '':'' @ stringify_ref v) kvs) @ ''}''"

definition base64_char :: "nat \<Rightarrow> char" where
  "base64_char k =
     (if k < 26 then char_of (65 + k)
      else if k < 52 then char_of (97 + (k - 26))
      else if k < 62 then char_of (48 + (k - 52))
      else if k = 62 then CHR ''+''
      else CHR ''/'')"

fun base64 :: "nat list \<Rightarrow> string" where
  "base64 [] = []"
| "base64 [a] =
     [base64_char ((a mod 256) div 4), base64_char (((a mod 256) mod 4) * 16), CHR ''='', CHR ''='']"
| "base64 [a, b] =
     [base64_char ((a mod 256) div 4),
      base64_char (((a mod 256) mod 4) * 16 + (b mod 256) div 16),
      base64_char (((b mod 256) mod 16) * 4), CHR ''='']"
| "base64 (a # b # c # rest) =
     [base64_char ((a mod 256) div 4),
      base64_char (((a mod 256) mod 4) * 16 + (b mod 256) div 16),
      base64_char (((b mod 256) mod 16) * 4 + (c mod 256) div 64),
      base64_char ((c mod 256) mod 64)] @ base64 rest"

type_synonym required_keys = "string list"

definition validate_required :: "required_keys \<Rightarrow> json \<Rightarrow> error option" where
  "validate_required keys v =
     (case v of
        JObject kvs \<Rightarrow>
          if list_all (\<lambda>k. k \<in> set (map fst kvs)) keys then None
          else Some (ZodSchemaValidationError ''Required'')
      | _ \<Rightarrow> Some (ZodSchemaValidationError ''Expected object''))"

definition schema_document :: "required_keys \<Rightarrow> json" where
  "schema_document keys =
     JObject [(''type'', JString ''object''), (''required'', JArray (map JString keys))]"

definition response_format_ref :: "required_keys \<Rightarrow> string \<Rightarrow> error + json" where
  "response_format_ref keys nm =
     Inr (JObject [(''type'', JString ''json_schema''),
                   (''json_schema'',
                    JObject [(''name'', JString nm), (''strict'', JBool True),
                             (''schema'', schema_document keys)])])"

type_synonym alist_cache = "(required_keys cacheOptions \<times> completion) list"

definition ref_env ::
  "(nat \<Rightarrow> ChatCompletionCreateParams \<Rightarrow> error + ChatCompletion)
     \<Rightarrow> (required_keys, alist_cache) env" where
  "ref_env vendor =
     \<lparr> create = vendor,
       JSON_parse = JSON_parse_ref,
       JSON_stringify = stringify_ref,
       validateZodSchema = validate_required,
       zodResponseFormat = response_format_ref,
       zodToJsonSchema = schema_document,
       toBase64 = base64,
       cache_get = (\<lambda>c key rid. Inr (map_of c key)),
       cache_set = (\<lambda>c key result rid. Inr ((key, result) # c)) \<rparr>"

text \<open>A request, a client and an initial world for the examples.\<close>

definition ask :: "required_keys response_model option \<Rightarrow> required_keys ChatCompletionOptions" where
  "ask rm =
     \<lparr> messages = [\<lparr>msg_role = User, msg_content = Str ''Extract the field a.''\<rparr>],
       temperature = None, top_p = None, frequency_penalty = None, presence_penalty = None,
       image = None, maxTokens = None, response_model = rm, tools = None,
       tool_choice = None, requestId = Some ''r1'' \<rparr>"

definition want_a :: "required_keys response_model option" where
  "want_a = Some \<lparr>schema = [''a''], name = ''Extraction''\<rparr>"

definition router :: "bool \<Rightarrow> client" where
  "router caching = \<lparr>modelName = ''x-ai/grok-4'', enableCaching = caching\<rparr>"

definition fresh :: "alist_cache option \<Rightarrow> alist_cache world" where
  "fresh c = \<lparr>cache = c, trace = [], adapter_calls = 0\<rparr>"

text \<open>A vendor reply with one choice, holding the given content and tool calls.\<close>

definition reply :: "string option \<Rightarrow> ToolCall list option \<Rightarrow> ChatCompletion" where
  "reply text calls =
     \<lparr> api_id = ''gen-1'', api_created = 0,
       api_choices = [\<lparr>api_message = Some \<lparr>api_content = text, api_tool_calls = calls\<rparr>,
                       api_finish_reason = Some ''stop''\<rparr>],
       api_usage = None \<rparr>"

subsection \<open>Observations used in the properties\<close>

text \<open>The requests sent to the vendor so far, in order.\<close>

definition vendor_requests :: "'c world \<Rightarrow> ChatCompletionCreateParams list" where
  "vendor_requests w = [p. Create p \<leftarrow> trace w]"

text \<open>The texts handed to \<^verbatim>\<open>JSON.parse\<close> so far, in order.\<close>

definition parsed_texts :: "'c world \<Rightarrow> string list" where
  "parsed_texts w = [t. JSONParse t \<leftarrow> trace w]"

text \<open>The request that \<open>build_request\<close> hands to the vendor; the world only receives a
  log line.\<close>

definition request ::
  "('s, 'c) env \<Rightarrow> client \<Rightarrow> 's ChatCompletionOptions \<Rightarrow> ChatCompletionCreateParams" where
  "request E this options =
     fst (build_request E this options \<lparr>cache = None, trace = [], adapter_calls = 0\<rparr>)"

definition request_part001 ::
  "('s, 'c) env \<Rightarrow> client \<Rightarrow> 's ChatCompletionOptions \<Rightarrow> ChatCompletionCreateParams" where
  "request_part001 E this options =
     fst (build_request_part001 E this options \<lparr>cache = None, trace = [], adapter_calls = 0\<rparr>)"

text \<open>The lookup of lines 99 to 134 finds nothing: caching is off, or \<^verbatim>\<open>cache.get\<close>
  returns nothing for the key of this request.\<close>

definition cache_misses ::
  "('s, 'c) env \<Rightarrow> client \<Rightarrow> 's ChatCompletionOptions \<Rightarrow> 'c world \<Rightarrow> bool" where
  "cache_misses E this options w =
     (\<not> enableCaching this
      \<or> (case cache w of
            None \<Rightarrow> False
          | Some c \<Rightarrow> cache_get E c (cacheOptions this options) (requestId options) = Inr None))"








definition one_a :: string where
  "one_a = ''{\"a\":1}''"





section \<open>Properties\<close>

subsection \<open>How the world changes\<close>

lemma logger_frame [simp]:
  "cache (logger a b l w) = cache w"
  "adapter_calls (logger a b l w) = adapter_calls w"
  "trace (logger a b l w) = trace w @ [Log a b l]"
  "vendor_requests (logger a b l w) = vendor_requests w"
  by (simp_all add: logger_def vendor_requests_def)

lemma record_event_frame [simp]:
  "cache (record_event ev w) = cache w"
  "adapter_calls (record_event ev w) = adapter_calls w"
  "trace (record_event ev w) = trace w @ [ev]"
  by (simp_all add: record_event_def)

lemma record_event_requests [simp]:
  "vendor_requests (record_event (Create p) w) = vendor_requests w @ [p]"
  "vendor_requests (record_event (CacheGet rid) w) = vendor_requests w"
  "vendor_requests (record_event (CacheSet r rid) w) = vendor_requests w"
  "vendor_requests (record_event (JSONParse t) w) = vendor_requests w"
  "vendor_requests (record_event (Validate v) w) = vendor_requests w"
  by (simp_all add: record_event_def vendor_requests_def)

lemma world_update_frame [simp]:
  "vendor_requests (w\<lparr>adapter_calls := k\<rparr>) = vendor_requests w"
  "vendor_requests (w\<lparr>cache := c\<rparr>) = vendor_requests w"
  by (simp_all add: vendor_requests_def)

lemma request_failed_frame [simp]:
  "cache (request_failed e w) = cache w"
  "adapter_calls (request_failed e w) = adapter_calls w"
  "vendor_requests (request_failed e w) = vendor_requests w"
  by (simp_all add: request_failed_def)

lemma retrying_frame [simp]:
  "cache (retrying k w) = cache w"
  "adapter_calls (retrying k w) = adapter_calls w"
  "vendor_requests (retrying k w) = vendor_requests w"
  by (simp_all add: retrying_def)

lemma build_request_fst [simp]: "fst (build_request E this options w) = request E this options"
  by (simp add: build_request_def request_def Let_def split: option.splits sum.splits)

lemma build_request_part001_fst [simp]:
  "fst (build_request_part001 E this options w) = request_part001 E this options"
  by (simp add: build_request_part001_def request_part001_def Let_def split: option.splits)

lemma build_request_frame [simp]:
  "cache (snd (build_request E this options w)) = cache w"
  "adapter_calls (snd (build_request E this options w)) = adapter_calls w"
  "vendor_requests (snd (build_request E this options w)) = vendor_requests w"
  by (simp_all add: build_request_def Let_def split: option.splits sum.splits)

lemma build_request_part001_frame [simp]:
  "cache (snd (build_request_part001 E this options w)) = cache w"
  "adapter_calls (snd (build_request_part001 E this options w)) = adapter_calls w"
  "vendor_requests (snd (build_request_part001 E this options w)) = vendor_requests w"
  by (simp_all add: build_request_part001_def Let_def split: option.splits)

lemma cache_lookup_miss:
  assumes "cache_misses E this options w"
  shows "\<exists>w'. cache_lookup E this options w = (Inr None, w') \<and> cache w' = cache w
     \<and> adapter_calls w' = adapter_calls w \<and> vendor_requests w' = vendor_requests w"
  using assms
  by (auto simp: cache_lookup_def cache_misses_def Let_def split: option.splits)

lemma attempt_part001_miss:
  assumes "cache_misses E this options w"
  shows "\<exists>w1. attempt_part001 E this options w = try_block_part001 E this options (request_part001 E this options) w1
     \<and> cache w1 = cache w \<and> adapter_calls w1 = adapter_calls w \<and> vendor_requests w1 = vendor_requests w"
proof -
  have "cache_misses E this options (logger ''openrouter'' ''creating chat completion'' 2 w)"
    using assms by (simp add: cache_misses_def)
  from cache_lookup_miss [OF this] obtain w' where
    w': "cache_lookup E this options (logger ''openrouter'' ''creating chat completion'' 2 w) = (Inr None, w')"
      "cache w' = cache w" "adapter_calls w' = adapter_calls w" "vendor_requests w' = vendor_requests w"
    by auto
  show ?thesis
    by (rule exI [of _ "snd (build_request_part001 E this options w')"])
       (simp add: attempt_part001_def w' split_beta)
qed

lemma attempt_miss:
  assumes "cache_misses E this options w"
  shows "\<exists>w1. attempt E this options w = try_block E this options (request E this options) w1
     \<and> cache w1 = cache w \<and> adapter_calls w1 = adapter_calls w \<and> vendor_requests w1 = vendor_requests w"
proof -
  have "cache_misses E this options (logger ''openrouter'' ''creating chat completion'' 2 w)"
    using assms by (simp add: cache_misses_def)
  from cache_lookup_miss [OF this] obtain w' where
    w': "cache_lookup E this options (logger ''openrouter'' ''creating chat completion'' 2 w) = (Inr None, w')"
      "cache w' = cache w" "adapter_calls w' = adapter_calls w" "vendor_requests w' = vendor_requests w"
    by auto
  show ?thesis
    by (rule exI [of _ "snd (build_request E this options w')"])
       (simp add: attempt_def w' split_beta)
qed









subsection \<open>The span matched by the regular expression\<close>



subsection \<open>Passes and their outcomes\<close>

lemma parsed_texts_frame [simp]:
  "parsed_texts (logger a b l w) = parsed_texts w"
  "parsed_texts (record_event (JSONParse t) w) = parsed_texts w @ [t]"
  "parsed_texts (record_event (Create p) w) = parsed_texts w"
  "parsed_texts (record_event (CacheGet rid) w) = parsed_texts w"
  "parsed_texts (record_event (CacheSet r rid) w) = parsed_texts w"
  "parsed_texts (record_event (Validate v) w) = parsed_texts w"
  "parsed_texts (w\<lparr>adapter_calls := k\<rparr>) = parsed_texts w"
  "parsed_texts (w\<lparr>cache := c\<rparr>) = parsed_texts w"
  "parsed_texts (request_failed e w) = parsed_texts w"
  "parsed_texts (retrying n w) = parsed_texts w"
  by (simp_all add: parsed_texts_def logger_def record_event_def request_failed_def retrying_def)

lemma build_request_part001_parsed [simp]:
  "parsed_texts (snd (build_request_part001 E this options w)) = parsed_texts w"
  by (simp add: build_request_part001_def Let_def split: option.splits)


lemma decode_frame [simp]:
  "cache (snd (decode E raw w)) = cache w"
  "adapter_calls (snd (decode E raw w)) = adapter_calls w"
  "vendor_requests (snd (decode E raw w)) = vendor_requests w"
  by (simp_all add: decode_def Let_def split: sum.splits option.splits)




lemma cache_store_frame [simp]:
  "adapter_calls (snd (cache_store E this options r w)) = adapter_calls w"
  "vendor_requests (snd (cache_store E this options r w)) = vendor_requests w"
  by (simp_all add: cache_store_def Let_def split: option.splits sum.splits)

lemma validate_and_store_frame [simp]:
  "adapter_calls (snd (validate_and_store E this options rm response v w)) = adapter_calls w"
  "vendor_requests (snd (validate_and_store E this options rm response v w)) = vendor_requests w"
  by (simp_all add: validate_and_store_def Let_def split: option.splits)

lemma try_block_frame [simp]:
  "adapter_calls (snd (try_block E this options params w)) = Suc (adapter_calls w)"
  "vendor_requests (snd (try_block E this options params w)) = vendor_requests w @ [params]"
  by (simp_all add: try_block_def call_vendor_def Let_def split: sum.splits option.splits)

lemma try_block_part001_frame [simp]:
  "adapter_calls (snd (try_block_part001 E this options params w)) = Suc (adapter_calls w)"
  "vendor_requests (snd (try_block_part001 E this options params w)) = vendor_requests w @ [params]"
  by (simp_all add: try_block_part001_def call_vendor_def Let_def split_beta
      split: sum.splits option.splits)







subsection \<open>The claims\<close>




text \<open>C2. When caching is on and the cache returns an entry for the key of the request,
  the call returns that entry, in both variants and whatever \<open>retries\<close> is. The world it
  leaves differs from the one it found by three trace entries: the opening log line, the
  cache read and the log line of the hit. So the vendor is not called, nothing is parsed
  or validated, nothing is written to the cache and no retry starts.\<close>

theorem cache_hit_returns_cached:
  assumes "enableCaching this"
    and "cache w = Some c"
    and "cache_get E c (cacheOptions this options) (requestId options) = Inr (Some cachedResponse)"
  shows "createChatCompletion E this options retries w
           = (Inr cachedResponse,
              w\<lparr>trace := trace w @ [Log ''openrouter'' ''creating chat completion'' 2,
                                      CacheGet (requestId options),
                                      Log ''llm_cache'' ''LLM cache hit - returning cached response'' 1]\<rparr>)
       \<and> createChatCompletion_part001 E this options retries w
           = (Inr cachedResponse,
              w\<lparr>trace := trace w @ [Log ''openrouter'' ''creating chat completion'' 2,
                                      CacheGet (requestId options),
                                      Log ''llm_cache'' ''LLM cache hit - returning cached response'' 1]\<rparr>)"
proof -
  have look: "cache_lookup E this options (logger ''openrouter'' ''creating chat completion'' 2 w)
      = (Inr (Some cachedResponse),
         w\<lparr>trace := trace w @ [Log ''openrouter'' ''creating chat completion'' 2,
                                 CacheGet (requestId options),
                                 Log ''llm_cache'' ''LLM cache hit - returning cached response'' 1]\<rparr>)"
    using assms by (simp add: cache_lookup_def logger_def record_event_def)
  show ?thesis
    by (subst createChatCompletion.simps, subst createChatCompletion_part001.simps)
       (simp add: attempt_def attempt_part001_def look)
qed

text \<open>C2 on a cache that holds an extracted value for the request, with a vendor that
  would fail if it were called.\<close>

theorem cache_hit_returns_cached_witness:
  "enableCaching (router True)
   \<and> createChatCompletion (ref_env (\<lambda>n p. Inl (Error ''not called''))) (router True) (ask want_a) 2
        (fresh (Some [(cacheOptions (router True) (ask want_a),
                       Extracted (JObject [(''a'', JNumber 1)])
                         \<lparr>prompt_tokens = 7, completion_tokens = 5, total_tokens = 12\<rparr>)]))
       = (Inr (Extracted (JObject [(''a'', JNumber 1)])
                 \<lparr>prompt_tokens = 7, completion_tokens = 5, total_tokens = 12\<rparr>),
          \<lparr>cache = Some [(cacheOptions (router True) (ask want_a),
                          Extracted (JObject [(''a'', JNumber 1)])
                            \<lparr>prompt_tokens = 7, completion_tokens = 5, total_tokens = 12\<rparr>)],
           trace = [Log ''openrouter'' ''creating chat completion'' 2,
                    CacheGet (Some ''r1''),
                    Log ''llm_cache'' ''LLM cache hit - returning cached response'' 1],
           adapter_calls = 0\<rparr>)"
proof -
  let ?E = "ref_env (\<lambda>n p. Inl (Error ''not called''))"
  let ?cached = "Extracted (JObject [(''a'', JNumber 1)])
                   \<lparr>prompt_tokens = 7, completion_tokens = 5, total_tokens = 12\<rparr>"
  let ?c = "[(cacheOptions (router True) (ask want_a), ?cached)]"
  have on: "enableCaching (router True)"
    by (simp add: router_def)
  have holds: "cache (fresh (Some ?c)) = Some ?c"
    by (simp add: fresh_def)
  have hit: "cache_get ?E ?c (cacheOptions (router True) (ask want_a)) (requestId (ask want_a))
      = Inr (Some ?cached)"
    by (simp add: ref_env_def)
  from cache_hit_returns_cached [OF on holds hit, of 2] on show ?thesis
    by (simp add: fresh_def ask_def)
qed

text \<open>C3. The cache key built from a request does not depend on its \<open>requestId\<close>
  (\<open>retries\<close> is no field of the request and no argument of \<open>cacheOptions\<close>), and two keys
  are equal exactly when the model name, the messages, the four sampling parameters,
  \<open>maxTokens\<close>, the tools, the tool choice, the response model and the image are.\<close>

theorem cacheOptions_excludes_requestId:
  "cacheOptions this (options\<lparr>requestId := r\<rparr>) = cacheOptions this options
   \<and> (cacheOptions this A = cacheOptions that B
        \<longleftrightarrow> modelName this = modelName that
          \<and> messages A = messages B
          \<and> temperature A = temperature B
          \<and> top_p A = top_p B
          \<and> frequency_penalty A = frequency_penalty B
          \<and> presence_penalty A = presence_penalty B
          \<and> maxTokens A = maxTokens B
          \<and> tools A = tools B
          \<and> tool_choice A = tool_choice B
          \<and> response_model A = response_model B
          \<and> image A = image B)"
  by (auto simp: cacheOptions_def)
















text \<open>C10. When the caller's temperature is absent or 0, the request built for the vendor
  carries the temperature 0.7, in both variants, and on a cache miss that request is the
  one the pass sends. The requests built for temperature 0 and for no temperature are
  the same, while the cache key carries the caller's value, so the two keys differ.\<close>

theorem zero_temperature_sent_as_default:
  assumes "temperature options = None \<or> temperature options = Some 0"
  shows "req_temperature (request E this options) = 7 / 10
    \<and> req_temperature (request_part001 E this options) = 7 / 10
    \<and> (cache_misses E this options w
        \<longrightarrow> vendor_requests (snd (attempt E this options w))
              = vendor_requests w @ [request E this options]
          \<and> vendor_requests (snd (attempt_part001 E this options w))
              = vendor_requests w @ [request_part001 E this options])
    \<and> request E this (options\<lparr>temperature := Some 0\<rparr>)
        = request E this (options\<lparr>temperature := None\<rparr>)
    \<and> request_part001 E this (options\<lparr>temperature := Some 0\<rparr>)
        = request_part001 E this (options\<lparr>temperature := None\<rparr>)
    \<and> key_temperature (cacheOptions this options) = temperature options
    \<and> cacheOptions this (options\<lparr>temperature := Some 0\<rparr>)
        \<noteq> cacheOptions this (options\<lparr>temperature := None\<rparr>)"
proof (intro conjI impI)
  from assms show "req_temperature (request E this options) = 7 / 10"
    by (auto simp: request_def build_request_def createParams_def temperature_or_default_def
        Let_def split: option.splits sum.splits)
next
  from assms show "req_temperature (request_part001 E this options) = 7 / 10"
    by (auto simp: request_part001_def build_request_part001_def createParams_def
        temperature_or_default_def Let_def split: option.splits)
next
  assume miss: "cache_misses E this options w"
  from attempt_miss [OF miss] obtain w0 where
    "attempt E this options w = try_block E this options (request E this options) w0"
    "vendor_requests w0 = vendor_requests w"
    by blast
  then show "vendor_requests (snd (attempt E this options w))
      = vendor_requests w @ [request E this options]"
    by simp
next
  assume miss: "cache_misses E this options w"
  from attempt_part001_miss [OF miss] obtain w0 where
    "attempt_part001 E this options w
       = try_block_part001 E this options (request_part001 E this options) w0"
    "vendor_requests w0 = vendor_requests w"
    by blast
  then show "vendor_requests (snd (attempt_part001 E this options w))
      = vendor_requests w @ [request_part001 E this options]"
    by simp
next
  show "request E this (options\<lparr>temperature := Some 0\<rparr>)
      = request E this (options\<lparr>temperature := None\<rparr>)"
    by (simp add: request_def build_request_def createParams_def temperature_or_default_def
        with_image_def formatTools_def Let_def split: option.splits sum.splits)
next
  show "request_part001 E this (options\<lparr>temperature := Some 0\<rparr>)
      = request_part001 E this (options\<lparr>temperature := None\<rparr>)"
    by (simp add: request_part001_def build_request_part001_def createParams_def
        temperature_or_default_def with_image_def formatTools_def Let_def split: option.splits)
next
  show "key_temperature (cacheOptions this options) = temperature options"
    by (simp add: cacheOptions_def)
next
  show "cacheOptions this (options\<lparr>temperature := Some 0\<rparr>)
      \<noteq> cacheOptions this (options\<lparr>temperature := None\<rparr>)"
    by (simp add: cacheOptions_def)
qed

text \<open>C10 on a request with temperature 0, sent to a vendor that answers \<open>one_a\<close>.\<close>

theorem zero_temperature_sent_as_default_witness:
  "temperature ((ask want_a)\<lparr>temperature := Some 0\<rparr>) = Some 0
   \<and> req_temperature
        (request (ref_env (\<lambda>n p. Inr (reply (Some one_a) None))) (router False)
           ((ask want_a)\<lparr>temperature := Some 0\<rparr>)) = 7 / 10
   \<and> req_temperature
        (request_part001 (ref_env (\<lambda>n p. Inr (reply (Some one_a) None))) (router False)
           ((ask want_a)\<lparr>temperature := Some 0\<rparr>)) = 7 / 10
   \<and> map req_temperature
        (vendor_requests
           (snd (attempt (ref_env (\<lambda>n p. Inr (reply (Some one_a) None))) (router False)
                   ((ask want_a)\<lparr>temperature := Some 0\<rparr>) (fresh None)))) = [7 / 10]
   \<and> key_temperature (cacheOptions (router False) ((ask want_a)\<lparr>temperature := Some 0\<rparr>))
       = Some 0"
proof -
  let ?E = "ref_env (\<lambda>n p. Inr (reply (Some one_a) None))"
  let ?o = "(ask want_a)\<lparr>temperature := Some 0\<rparr>"
  have zero: "temperature ?o = None \<or> temperature ?o = Some 0"
    by simp
  have miss: "cache_misses ?E (router False) ?o (fresh None)"
    by (simp add: cache_misses_def router_def)
  have none: "vendor_requests (fresh None :: alist_cache world) = []"
    by (simp add: vendor_requests_def fresh_def)
  from zero_temperature_sent_as_default [OF zero, of ?E "router False" "fresh None"] miss
  have "req_temperature (request ?E (router False) ?o) = 7 / 10"
    and "req_temperature (request_part001 ?E (router False) ?o) = 7 / 10"
    and "vendor_requests (snd (attempt ?E (router False) ?o (fresh None)))
          = vendor_requests (fresh None :: alist_cache world) @ [request ?E (router False) ?o]"
    and "key_temperature (cacheOptions (router False) ?o) = temperature ?o"
    by blast+
  then show ?thesis
    by (simp add: none)
qed

end
